theory Spec2Isabelle
  imports Main "HOL-Library.Sublist"
begin

section \<open>Strings\<close>

text \<open>
  A JavaScript string is modelled by the list of the bytes of its UTF-8 encoding. For
  well-formed strings the operations the component uses mean the same on these bytes as
  on the UTF-16 code units of the engine: the test for the empty string, equality,
  concatenation, and \<open>s.includes(t)\<close>, which holds when \<open>t\<close> occurs in \<open>s\<close> as a
  contiguous run, at some position (the empty string occurs in every string).
\<close>

fun includes' :: "string \<Rightarrow> string \<Rightarrow> bool" where
  "includes' [] t = (t = [])"
| "includes' (c # cs) t = (prefix t (c # cs) \<or> includes' cs t)"

text \<open>
  \<open>String.prototype.toLowerCase\<close> is built into the engine: it follows the Unicode case
  tables, depends on the context of a character (the capital sigma at the end of a word)
  and may change the length of a string. The definitions below take it as a parameter
  \<open>toLowerCase\<close>, and the theorems hold for every function in its place; the two facts
  about the built-in that some of them ask for are that it maps the empty string to the
  empty string and no other string to it.

  On strings of ASCII characters the built-in turns \<open>A\<close>..\<open>Z\<close> (65..90) into the
  character 32 above and leaves the rest alone. \<open>ascii_toLowerCase\<close> is that function;
  the worked examples use it, on ASCII strings.
\<close>

definition ascii_toLowerCase_char :: "char \<Rightarrow> char" where
  "ascii_toLowerCase_char c =
     (let n = (of_char c :: nat)
      in if 65 \<le> n \<and> n \<le> 90 then char_of (n + 32) else c)"

definition ascii_toLowerCase :: "string \<Rightarrow> string" where
  "ascii_toLowerCase s = map ascii_toLowerCase_char s"

text \<open>
  The capital sigma (bytes \<open>CE A3\<close>) shows the dependence on the context: in lower case
  it is the final sigma (\<open>CF 82\<close>) when a letter comes before it and none after it, and
  the ordinary small sigma (\<open>CF 83\<close>) otherwise. \<open>sigma_toLowerCase\<close> is the built-in
  on strings made of ASCII letters and capital sigmas; \<open>after\<close> tells whether the
  character before is a letter.
\<close>

definition ascii_letter :: "char \<Rightarrow> bool" where
  "ascii_letter c =
     (let n = (of_char c :: nat) in (65 \<le> n \<and> n \<le> 90) \<or> (97 \<le> n \<and> n \<le> 122))"

fun letter_next :: "string \<Rightarrow> bool" where
  "letter_next [] = False"
| "letter_next [c] = ascii_letter c"
| "letter_next (c # d # cs) = (ascii_letter c \<or> (c = CHR 0xCE \<and> d = CHR 0xA3))"

fun sigma_toLowerCase_from :: "bool \<Rightarrow> string \<Rightarrow> string" where
  "sigma_toLowerCase_from after [] = []"
| "sigma_toLowerCase_from after [c] = [ascii_toLowerCase_char c]"
| "sigma_toLowerCase_from after (c # d # cs) =
     (if c = CHR 0xCE \<and> d = CHR 0xA3
      then CHR 0xCF # (if after \<and> \<not> letter_next cs then CHR 0x82 else CHR 0x83)
             # sigma_toLowerCase_from True cs
      else ascii_toLowerCase_char c # sigma_toLowerCase_from (ascii_letter c) (d # cs))"

definition sigma_toLowerCase :: "string \<Rightarrow> string" where
  "sigma_toLowerCase s = sigma_toLowerCase_from False s"

section \<open>Catalog records\<close>

text \<open>
  The fields of a catalog document as \<open>App.jsx\<close> reads them. Firestore documents carry no
  schema; the model gives each field the type the catalog stores in it (strings, integer
  counts, a list of URLs, the \<open>seconds\<close> of the creation timestamp) and \<open>None\<close> where the
  property is missing (\<open>undefined\<close>) or \<open>null\<close>, which the component never tells apart.
  A name or category of another type is outside the model (\<open>toLowerCase\<close> is a method of
  strings only), and so is a count that is not an integer.
\<close>

record fields =
  name :: "string option"
  category :: "string option"
  version :: "string option"
  size' :: "int option"
  downloads :: "int option"
  description :: "string option"
  icon_url :: "string option"
  screenshot_urls :: "string list option"
  apk_url :: "string option"
  developer_id :: "string option"
  created_at_seconds :: "int option"

text \<open>
  The data of a document may have a field called \<open>id\<close> of its own: \<open>data_id\<close> is
  \<open>None\<close> when it has none, \<open>Some None\<close> when the field holds \<open>null\<close>, and
  \<open>Some (Some s)\<close> when it holds the string \<open>s\<close>. A document is its id, which the
  store assigns and which is a string, and its data.
\<close>

record data = fields +
  data_id :: "string option option"

record doc =
  doc_id :: string
  doc_data :: data

text \<open>
  A record of the list is \<open>{ id: doc.id, ...doc.data() }\<close>: the fields of the data,
  and an \<open>id\<close> that is the id of the document unless the data has a field \<open>id\<close>; the
  spread comes after \<open>id: doc.id\<close> and overwrites it, with \<open>null\<close> too.
\<close>

record app = fields +
  id' :: "string option"

definition to_app :: "doc \<Rightarrow> app" where
  "to_app d =
     \<lparr>name = name (doc_data d), category = category (doc_data d),
      version = version (doc_data d), size' = size' (doc_data d),
      downloads = downloads (doc_data d), description = description (doc_data d),
      icon_url = icon_url (doc_data d), screenshot_urls = screenshot_urls (doc_data d),
      apk_url = apk_url (doc_data d), developer_id = developer_id (doc_data d),
      created_at_seconds = created_at_seconds (doc_data d),
      id' = (case data_id (doc_data d) of None \<Rightarrow> Some (doc_id d) | Some v \<Rightarrow> v)\<rparr>"

text \<open>Truthiness of a string-valued property: present and not the empty string.\<close>

definition truthy :: "string option \<Rightarrow> bool" where
  "truthy v = (case v of None \<Rightarrow> False | Some s \<Rightarrow> s \<noteq> [])"

section \<open>Component state and its handlers\<close>

text \<open>The five \<open>useState\<close> cells of \<open>App\<close>, with their initial values.\<close>

record app_state =
  apps :: "app list"
  loading :: bool
  error :: "string option"
  searchTerm :: string
  selectedApp :: "app option"

definition init_state :: app_state where
  "init_state = \<lparr>apps = [], loading = True, error = None, searchTerm = [], selectedApp = None\<rparr>"

text \<open>
  The two callbacks handed to \<open>onSnapshot\<close>: the first maps the documents of the snapshot
  and calls \<open>setApps\<close> and \<open>setLoading(false)\<close>; the second calls \<open>setError(err.message)\<close>
  and \<open>setLoading(false)\<close>. The \<open>catch\<close> branch of the effect does what the second does.
  Each handler is one transition: the state after all its \<open>set...\<close> calls.

  Records are values here. In JavaScript \<open>selectedApp\<close> refers to an object of the list
  that was current when the card was clicked; every snapshot builds new objects, and no
  code of the component writes to a record, so the object referred to never changes.
\<close>

definition onSnapshot_next :: "app_state \<Rightarrow> doc list \<Rightarrow> app_state" where
  "onSnapshot_next st docs = st\<lparr>apps := map to_app docs, loading := False\<rparr>"

definition onSnapshot_error :: "app_state \<Rightarrow> string \<Rightarrow> app_state" where
  "onSnapshot_error st message = st\<lparr>error := Some message, loading := False\<rparr>"

definition setup_catch :: "app_state \<Rightarrow> string \<Rightarrow> app_state" where
  "setup_catch st message = st\<lparr>error := Some message, loading := False\<rparr>"

text \<open>
  The user's handlers: \<open>onChange\<close> of either search box, \<open>onClick\<close> of a card
  (\<open>setSelectedApp(app)\<close>) and \<open>onClose\<close> of the overlay (\<open>setSelectedApp(null)\<close>).
\<close>

definition setSearchTerm :: "app_state \<Rightarrow> string \<Rightarrow> app_state" where
  "setSearchTerm st v = st\<lparr>searchTerm := v\<rparr>"

definition setSelectedApp :: "app_state \<Rightarrow> app option \<Rightarrow> app_state" where
  "setSelectedApp st a = st\<lparr>selectedApp := a\<rparr>"

datatype event =
    Snapshot "doc list"
  | Failure string
  | SetupFailure string
  | Search string
  | Select app
  | Dismiss

fun step :: "app_state \<Rightarrow> event \<Rightarrow> app_state" where
  "step st (Snapshot docs) = onSnapshot_next st docs"
| "step st (Failure m) = onSnapshot_error st m"
| "step st (SetupFailure m) = setup_catch st m"
| "step st (Search v) = setSearchTerm st v"
| "step st (Select a) = setSelectedApp st (Some a)"
| "step st Dismiss = setSelectedApp st None"

definition run :: "app_state \<Rightarrow> event list \<Rightarrow> app_state" where
  "run st evs = foldl step st evs"

section \<open>The search filter\<close>

text \<open>
  The callback of \<open>apps.filter\<close>: \<open>&&\<close> and \<open>||\<close> short-circuit, so a property that is
  missing or empty never reaches \<open>toLowerCase\<close>.
\<close>

definition matches :: "(string \<Rightarrow> string) \<Rightarrow> string \<Rightarrow> app \<Rightarrow> bool" where
  "matches toLowerCase q a =
     ((case name a of None \<Rightarrow> False
        | Some n \<Rightarrow> n \<noteq> [] \<and> includes' (toLowerCase n) (toLowerCase q)) \<or>
      (case category a of None \<Rightarrow> False
        | Some c \<Rightarrow> c \<noteq> [] \<and> includes' (toLowerCase c) (toLowerCase q)))"

definition filteredApps :: "(string \<Rightarrow> string) \<Rightarrow> app list \<Rightarrow> string \<Rightarrow> app list" where
  "filteredApps toLowerCase L q = filter (matches toLowerCase q) L"

text \<open>
  The inclusion rule in the words of the specification, for comparison with \<open>matches\<close>.
  A string contains the query case-insensitively when the query in lower case is a
  contiguous run of the string in lower case. (Since lower case depends on the context of
  a character, this is not the same as a run of the string that equals the query up to
  case.) A record is included when the query is empty or its name or its category
  contains the query in that sense.
\<close>

definition ci_contains :: "(string \<Rightarrow> string) \<Rightarrow> string \<Rightarrow> string \<Rightarrow> bool" where
  "ci_contains toLowerCase s q = sublist (toLowerCase q) (toLowerCase s)"

definition spec_included :: "(string \<Rightarrow> string) \<Rightarrow> string \<Rightarrow> app \<Rightarrow> bool" where
  "spec_included toLowerCase q a =
     (q = [] \<or>
      (case name a of None \<Rightarrow> False | Some n \<Rightarrow> ci_contains toLowerCase n q) \<or>
      (case category a of None \<Rightarrow> False | Some c \<Rightarrow> ci_contains toLowerCase c q))"

text \<open>
  What \<open>matches\<close> asks of a record, in the same vocabulary: a name that is present, not
  the empty string, and contains the query; or such a category.
\<close>

definition code_included :: "(string \<Rightarrow> string) \<Rightarrow> string \<Rightarrow> app \<Rightarrow> bool" where
  "code_included toLowerCase q a =
     ((case name a of None \<Rightarrow> False
        | Some n \<Rightarrow> n \<noteq> [] \<and> ci_contains toLowerCase n q) \<or>
      (case category a of None \<Rightarrow> False
        | Some c \<Rightarrow> c \<noteq> [] \<and> ci_contains toLowerCase c q))"

section \<open>Rendering\<close>

text \<open>
  The main content of \<open>App\<close> (the error banner, the spinner or the grid, the empty-state
  block, the overlay) as data: the banner holds the text it shows, the grid the \<open>app\<close>
  props of its \<open>AppCard\<close> elements in order (\<open>None\<close> when the grid is not rendered),
  the overlay the \<open>app\<close> prop of the \<open>AppDetailsModal\<close> element. \<open>error && ...\<close> renders
  the banner for a truthy error, \<open>loading ? spinner : grid\<close> picks one of the two, and
  \<open>!loading && filteredApps.length === 0\<close> guards the empty-state block.
\<close>

record main_view =
  error_banner :: "string option"
  spinner :: bool
  grid :: "app list option"
  empty_state :: bool
  details_modal :: "app option"

definition render_main ::
  "app list \<Rightarrow> bool \<Rightarrow> string option \<Rightarrow> app option \<Rightarrow> main_view" where
  "render_main F ld err sel =
     \<lparr>error_banner = (if truthy err then err else None),
      spinner = ld,
      grid = (if ld then None else Some F),
      empty_state = (\<not> ld \<and> length F = 0),
      details_modal = sel\<rparr>"

text \<open>
  The whole of \<open>App\<close>: both search boxes show \<open>searchTerm\<close>, the badge shows
  \<open>filteredApps.length\<close>, and the main content is rendered from the filtered list and
  the other state cells.
\<close>

record view =
  search_value :: string
  apps_available :: nat
  main :: main_view

definition App :: "(string \<Rightarrow> string) \<Rightarrow> app_state \<Rightarrow> view" where
  "App toLowerCase st =
     (let F = filteredApps toLowerCase (apps st) (searchTerm st)
      in \<lparr>search_value = searchTerm st,
          apps_available = length F,
          main = render_main F (loading st) (error st) (selectedApp st)\<rparr>)"

text \<open>
  \<open>AppCard\<close>. \<open>x || d\<close> on a string property is \<open>d\<close> when the property is missing or
  empty. \<open>formatBytes\<close> and \<open>formatNumber\<close> are imported from \<open>./utils\<close>, which is not
  among the sources; the card takes them as parameters. \<open>app.downloads > 0\<close> is false
  for a missing count.
\<close>

definition or_else :: "string option \<Rightarrow> string \<Rightarrow> string" where
  "or_else v d = (case v of None \<Rightarrow> d | Some s \<Rightarrow> if s = [] then d else s)"

record card =
  card_key :: "string option"
  card_icon :: string
  card_alt :: "string option"
  card_title :: string
  card_category :: string
  card_version :: string
  card_size :: string
  card_description :: string
  card_downloads :: string

definition AppCard :: "(int option \<Rightarrow> string) \<Rightarrow> (int \<Rightarrow> string) \<Rightarrow> app \<Rightarrow> card" where
  "AppCard fmtBytes fmtNumber a =
     \<lparr>card_key = id' a,
      card_icon = or_else (icon_url a) ''https://uiapp.store/placeholder-icon.png'',
      card_alt = name a,
      card_title = or_else (name a) ''Untitled App'',
      card_category = or_else (category a) ''Utility'',
      card_version = ''v'' @ or_else (version a) ''1.0'',
      card_size = fmtBytes (size' a),
      card_description =
        or_else (description a) ''No description available for this application.'',
      card_downloads =
        (case downloads a of
           None \<Rightarrow> ''New Release''
         | Some n \<Rightarrow> if n > 0 then fmtNumber n @ '' downloads'' else ''New Release'')\<rparr>"

text \<open>
  The decimal digits of a number, and the commas between groups of three digits, put
  into the digits in reverse order.
\<close>

fun decimal :: "nat \<Rightarrow> string" where
  "decimal n = (if n < 10 then [char_of (48 + n)] else decimal (n div 10) @ [char_of (48 + n mod 10)])"

declare decimal.simps [simp del]

fun group3 :: "string \<Rightarrow> string" where
  "group3 (a # b # c # d # r) = a # b # c # CHR '','' # group3 (d # r)"
| "group3 s = s"

text \<open>
  Modelled from the spec: \<open>formatNumber\<close> of \<open>src/utils\<close>, which is not among the
  sources. The specification says of it that a count is shown "locale-formatted", with
  the example \<open>12,000\<close> for 12000: the decimal digits of the number, in groups of three
  from the right, the groups separated by commas (and a minus sign before a negative
  number).
\<close>

definition formatNumber :: "int \<Rightarrow> string" where
  "formatNumber n =
     (if n < 0 then CHR ''-'' # rev (group3 (rev (decimal (nat (- n)))))
      else rev (group3 (rev (decimal (nat n)))))"

section \<open>Event histories\<close>

text \<open>
  The list the subscription delivered last in a history of events, starting from a given
  list: what "the last successfully received list" is.
\<close>

fun synced :: "app list \<Rightarrow> event list \<Rightarrow> app list" where
  "synced L [] = L"
| "synced L (Snapshot docs # evs) = synced (map to_app docs) evs"
| "synced L (e # evs) = synced L evs"

text \<open>The events of the user that set or clear the selection.\<close>

fun changes_selection :: "event \<Rightarrow> bool" where
  "changes_selection (Select a) = True"
| "changes_selection Dismiss = True"
| "changes_selection e = False"

section \<open>Sample documents\<close>

text \<open>
  A document without fields, the documents of the specification's scenarios (the
  calculator, id 1, and a second entry, id 2), and a document whose data has a field
  \<open>id\<close> of its own.
\<close>

definition no_fields :: data where
  "no_fields =
     \<lparr>name = None, category = None, version = None, size' = None, downloads = None,
      description = None, icon_url = None, screenshot_urls = None, apk_url = None,
      developer_id = None, created_at_seconds = None, data_id = None\<rparr>"

definition blank_doc :: doc where
  "blank_doc = \<lparr>doc_id = ''0'', doc_data = no_fields\<rparr>"

definition calculator_doc :: doc where
  "calculator_doc =
     \<lparr>doc_id = ''1'',
      doc_data = no_fields\<lparr>name := Some ''Calculator'', category := Some ''Tools''\<rparr>\<rparr>"

definition player_doc :: doc where
  "player_doc =
     \<lparr>doc_id = ''2'',
      doc_data = no_fields\<lparr>name := Some ''Player'', category := Some ''Music'',
                           downloads := Some 12000\<rparr>\<rparr>"

text \<open>A document whose name is \<open>A\<close>, a capital sigma, \<open>B\<close>.\<close>

definition sigma_doc :: doc where
  "sigma_doc =
     \<lparr>doc_id = ''3'',
      doc_data = no_fields\<lparr>name := Some [CHR ''A'', CHR 0xCE, CHR 0xA3, CHR ''B'']\<rparr>\<rparr>"

definition inner_doc :: doc where
  "inner_doc =
     \<lparr>doc_id = ''doc-8'',
      doc_data = no_fields\<lparr>name := Some ''Notes'', data_id := Some (Some ''inner'')\<rparr>\<rparr>"

section \<open>Properties of the filter\<close>

lemma includes'_iff_sublist: "includes' s t \<longleftrightarrow> sublist t s"
  by (induction s) (auto simp: sublist_Cons_right)

lemmas char_eval = ascii_toLowerCase_def ascii_toLowerCase_char_def char_of_def bit_0

lemma ascii_toLowerCase_Nil_iff: "ascii_toLowerCase s = [] \<longleftrightarrow> s = []"
  by (simp add: ascii_toLowerCase_def)

lemma matches_iff_code_included: "matches lower q a \<longleftrightarrow> code_included lower q a"
  by (simp add: matches_def code_included_def ci_contains_def includes'_iff_sublist
      split: option.splits)

lemma code_included_imp_spec: "code_included lower q a \<Longrightarrow> spec_included lower q a"
  by (auto simp: code_included_def spec_included_def split: option.splits)

lemma spec_included_imp_code:
  assumes "q \<noteq> []" and "lower [] = []" and "lower q \<noteq> []"
    and "spec_included lower q a"
  shows "code_included lower q a"
proof -
  have "\<not> ci_contains lower [] q"
    using assms(2,3) by (simp add: ci_contains_def)
  then have "ci_contains lower n q \<Longrightarrow> n \<noteq> []" for n
    by auto
  with assms(1,4) show ?thesis
    by (auto simp: code_included_def spec_included_def split: option.splits)
qed

lemma matches_empty_query:
  assumes "lower [] = []"
  shows "matches lower [] a \<longleftrightarrow> truthy (name a) \<or> truthy (category a)"
  using assms
  by (simp add: matches_iff_code_included code_included_def ci_contains_def truthy_def
      split: option.splits)

text \<open>
  C2, as amended. A record is in the filtered list exactly when it is in the input list
  and its name is present, not empty and contains the query case-insensitively, or its
  category is; a string contains the query case-insensitively when the query in lower
  case is a contiguous run of the string in lower case. This holds whatever function
  stands for \<open>toLowerCase\<close>. For a query that is not empty, and a \<open>toLowerCase\<close> that
  maps the empty string to itself and the query to a string that is not empty (as the
  built-in does), this is the rule of the specification: the query is empty, or the name
  contains it, or the category contains it. A record whose name and category are both
  absent is in no filtered list, whatever the query.
\<close>

theorem filteredApps_member:
  "(a \<in> set (filteredApps lower L q) \<longleftrightarrow> a \<in> set L \<and> code_included lower q a) \<and>
   (q \<noteq> [] \<and> lower [] = [] \<and> lower q \<noteq> [] \<longrightarrow>
      (a \<in> set (filteredApps lower L q) \<longleftrightarrow> a \<in> set L \<and> spec_included lower q a)) \<and>
   (name a = None \<and> category a = None \<longrightarrow> a \<notin> set (filteredApps lower L q))"
proof (intro conjI impI)
  show m: "a \<in> set (filteredApps lower L q) \<longleftrightarrow> a \<in> set L \<and> code_included lower q a"
    by (simp add: filteredApps_def matches_iff_code_included)
  show "a \<in> set (filteredApps lower L q) \<longleftrightarrow> a \<in> set L \<and> spec_included lower q a"
    if "q \<noteq> [] \<and> lower [] = [] \<and> lower q \<noteq> []"
    using that m code_included_imp_spec [of lower q a] spec_included_imp_code [of q lower a]
    by blast
  show "a \<notin> set (filteredApps lower L q)" if "name a = None \<and> category a = None"
    using that by (simp add: m code_included_def)
qed

lemma to_app_calculator:
  "name (to_app calculator_doc) = Some ''Calculator''"
  "category (to_app calculator_doc) = Some ''Tools''"
  "id' (to_app calculator_doc) = Some ''1''"
  by (simp_all add: to_app_def calculator_doc_def no_fields_def)

lemma to_app_blank:
  "name (to_app blank_doc) = None"
  "category (to_app blank_doc) = None"
  "id' (to_app blank_doc) = Some ''0''"
  by (simp_all add: to_app_def blank_doc_def no_fields_def)

lemma matches_calculator_calc: "matches ascii_toLowerCase ''calc'' (to_app calculator_doc)"
  by (simp add: matches_def to_app_calculator char_eval)

lemma not_matches_calculator_music:
  "\<not> matches ascii_toLowerCase ''music'' (to_app calculator_doc)"
  by (simp add: matches_def to_app_calculator char_eval)

text \<open>
  The scenario of the specification: the calculator is found by the query \<open>calc\<close>, the
  document without fields is not.
\<close>

theorem filteredApps_member_witness:
  "''calc'' \<noteq> [] \<and> ascii_toLowerCase [] = [] \<and> ascii_toLowerCase ''calc'' \<noteq> [] \<and>
   to_app calculator_doc \<in>
     set (filteredApps ascii_toLowerCase [to_app calculator_doc, to_app blank_doc] ''calc'') \<and>
   spec_included ascii_toLowerCase ''calc'' (to_app calculator_doc) \<and>
   name (to_app blank_doc) = None \<and> category (to_app blank_doc) = None \<and>
   to_app blank_doc \<notin>
     set (filteredApps ascii_toLowerCase [to_app calculator_doc, to_app blank_doc] ''calc'')"
  using
    filteredApps_member [of "to_app calculator_doc" ascii_toLowerCase
      "[to_app calculator_doc, to_app blank_doc]" "''calc''"]
    filteredApps_member [of "to_app blank_doc" ascii_toLowerCase
      "[to_app calculator_doc, to_app blank_doc]" "''calc''"]
  by (simp add: to_app_blank filteredApps_def matches_calculator_calc ascii_toLowerCase_Nil_iff)

text \<open>
  C2 as stated fails at the empty query: the rule of the specification includes the
  document without fields, the filter drops it.
\<close>

theorem filteredApps_member_counterexample:
  "\<not> (to_app blank_doc \<in> set (filteredApps ascii_toLowerCase [to_app blank_doc] []) \<longleftrightarrow>
      to_app blank_doc \<in> set [to_app blank_doc] \<and>
      spec_included ascii_toLowerCase [] (to_app blank_doc))"
  by (simp add: filteredApps_def matches_def to_app_blank spec_included_def)

text \<open>
  Lower case is taken of the whole name and of the whole query: the name \<open>A\<close>, sigma,
  \<open>B\<close> begins with the query \<open>A\<close>, sigma, but the sigma of the name becomes the ordinary
  small sigma and that of the query the final one, and the record is not found.
\<close>

lemmas sigma_eval = sigma_toLowerCase_def ascii_letter_def ascii_toLowerCase_char_def
  char_of_def bit_0

lemma final_sigma_example:
  "name (to_app sigma_doc) = Some [CHR ''A'', CHR 0xCE, CHR 0xA3, CHR ''B'']"
  "prefix [CHR ''A'', CHR 0xCE, CHR 0xA3] [CHR ''A'', CHR 0xCE, CHR 0xA3, CHR ''B'']"
  "sigma_toLowerCase [CHR ''A'', CHR 0xCE, CHR 0xA3, CHR ''B''] =
     [CHR ''a'', CHR 0xCF, CHR 0x83, CHR ''b'']"
  "sigma_toLowerCase [CHR ''A'', CHR 0xCE, CHR 0xA3] = [CHR ''a'', CHR 0xCF, CHR 0x82]"
  "filteredApps sigma_toLowerCase [to_app sigma_doc] [CHR ''A'', CHR 0xCE, CHR 0xA3] = []"
  by (simp_all add: filteredApps_def matches_def to_app_def sigma_doc_def no_fields_def
      sigma_eval)

text \<open>
  C1, as amended. With the empty query the filter keeps, in order, the records that have
  a name that is not empty or a category that is not empty; the result is the input list
  exactly when every record of the input has one of the two. This holds for every
  \<open>toLowerCase\<close> that maps the empty string to itself, as the built-in does.
\<close>

theorem filteredApps_empty_query:
  "lower [] = [] \<longrightarrow>
     filteredApps lower L [] = filter (\<lambda>a. truthy (name a) \<or> truthy (category a)) L \<and>
     (filteredApps lower L [] = L \<longleftrightarrow> (\<forall>a \<in> set L. truthy (name a) \<or> truthy (category a)))"
proof
  assume "lower [] = []"
  then have "matches lower [] = (\<lambda>a. truthy (name a) \<or> truthy (category a))"
    by (simp add: fun_eq_iff matches_empty_query)
  then show "filteredApps lower L [] = filter (\<lambda>a. truthy (name a) \<or> truthy (category a)) L \<and>
     (filteredApps lower L [] = L \<longleftrightarrow> (\<forall>a \<in> set L. truthy (name a) \<or> truthy (category a)))"
    by (simp add: filteredApps_def filter_id_conv)
qed

text \<open>A list whose records all have a name comes back unchanged.\<close>

theorem filteredApps_empty_query_witness:
  "ascii_toLowerCase [] = [] \<and>
   truthy (name (to_app calculator_doc)) \<and>
   filteredApps ascii_toLowerCase [to_app calculator_doc] [] = [to_app calculator_doc]"
  using filteredApps_empty_query [of ascii_toLowerCase "[to_app calculator_doc]"]
  by (simp add: to_app_calculator truthy_def ascii_toLowerCase_Nil_iff)

text \<open>
  C1 as stated fails for a record without name and category: the empty query does not
  return it.
\<close>

theorem filteredApps_empty_query_counterexample:
  "filteredApps ascii_toLowerCase [to_app blank_doc] [] \<noteq> [to_app blank_doc]"
  by (simp add: filteredApps_def matches_def to_app_blank)

text \<open>
  C7. Filtering is idempotent: filtering the filtered list again with the same query
  gives the filtered list.
\<close>

theorem filteredApps_idempotent:
  "filteredApps lower (filteredApps lower L q) q = filteredApps lower L q"
  by (simp add: filteredApps_def)

text \<open>
  C8. The filtered list is a subsequence of the input list: the records that are kept
  stay in the order in which the input has them.
\<close>

theorem filteredApps_subseq:
  "subseq (filteredApps lower L q) L"
  by (simp add: filteredApps_def)

section \<open>Properties of the subscription handlers\<close>

lemma run_Nil: "run st [] = st"
  by (simp add: run_def)

lemma run_Cons: "run st (e # evs) = run (step st e) evs"
  by (simp add: run_def)

lemma run_append: "run st (evs @ evs') = run (run st evs) evs'"
  by (simp add: run_def)

lemma apps_run: "apps (run st evs) = synced (apps st) evs"
proof (induction evs arbitrary: st)
  case Nil
  show ?case by (simp add: run_Nil)
next
  case (Cons e evs)
  show ?case
    by (cases e)
      (simp_all add: run_Cons Cons.IH onSnapshot_next_def onSnapshot_error_def
        setup_catch_def setSearchTerm_def setSelectedApp_def)
qed

text \<open>
  C3. When the subscription reports a failure with message \<open>m\<close>, the error becomes
  \<open>m\<close> and loading becomes false; the record list, the query and the selection stay as
  they were. After any history of events the list is the one the last snapshot
  delivered, the empty list when there was none.
\<close>

theorem onSnapshot_error_frame:
  "error (onSnapshot_error st m) = Some m \<and>
   loading (onSnapshot_error st m) = False \<and>
   apps (onSnapshot_error st m) = apps st \<and>
   searchTerm (onSnapshot_error st m) = searchTerm st \<and>
   selectedApp (onSnapshot_error st m) = selectedApp st \<and>
   onSnapshot_error st m = st\<lparr>error := Some m, loading := False\<rparr> \<and>
   apps (onSnapshot_error init_state m) = [] \<and>
   apps (run init_state (evs @ [Failure m])) = synced [] evs"
proof -
  have "apps (run init_state (evs @ [Failure m])) = synced [] evs"
    by (simp add: run_append run_Cons run_Nil onSnapshot_error_def apps_run)
      (simp add: init_state_def)
  then show ?thesis
    by (simp add: onSnapshot_error_def init_state_def)
qed

lemma to_app_inner:
  "name (to_app inner_doc) = Some ''Notes''"
  "id' (to_app inner_doc) = Some ''inner''"
  by (simp_all add: to_app_def inner_doc_def no_fields_def)

text \<open>
  C4, as amended. On every snapshot event the record list is replaced by the documents
  of the snapshot, in the order of the snapshot, each mapped to its fields and an id:
  the id of the document, unless the data of the document has a field \<open>id\<close> of its own,
  which then takes its place. Loading becomes false. The error, the query and the
  selection stay as they were: an error message set before is still set.
\<close>

theorem onSnapshot_next_effect:
  "apps (onSnapshot_next st docs) = map to_app docs \<and>
   map fields.truncate (apps (onSnapshot_next st docs)) =
     map (\<lambda>d. fields.truncate (doc_data d)) docs \<and>
   map id' (apps (onSnapshot_next st docs)) =
     map (\<lambda>d. case data_id (doc_data d) of None \<Rightarrow> Some (doc_id d) | Some v \<Rightarrow> v) docs \<and>
   ((\<forall>d \<in> set docs. data_id (doc_data d) = None) \<longrightarrow>
      map id' (apps (onSnapshot_next st docs)) = map (\<lambda>d. Some (doc_id d)) docs) \<and>
   loading (onSnapshot_next st docs) = False \<and>
   error (onSnapshot_next st docs) = error st \<and>
   searchTerm (onSnapshot_next st docs) = searchTerm st \<and>
   selectedApp (onSnapshot_next st docs) = selectedApp st"
  by (simp add: onSnapshot_next_def to_app_def fields.truncate_def comp_def)

text \<open>
  The calculator keeps the id of its document; the document whose data has the field
  \<open>id\<close> with the value \<open>inner\<close> gives a record with that id.
\<close>

theorem onSnapshot_next_effect_witness:
  "data_id (doc_data calculator_doc) = None \<and>
   map id' (apps (onSnapshot_next init_state [calculator_doc])) = [Some ''1''] \<and>
   map id' (apps (onSnapshot_next init_state [calculator_doc, inner_doc])) =
     [Some ''1'', Some ''inner''] \<and>
   loading (onSnapshot_next init_state [calculator_doc]) = False"
proof -
  note one = onSnapshot_next_effect [of init_state "[calculator_doc]"]
  note two = onSnapshot_next_effect [of init_state "[calculator_doc, inner_doc]"]
  have none: "data_id (doc_data calculator_doc) = None"
    by (simp add: calculator_doc_def no_fields_def)
  then have "\<forall>d \<in> set [calculator_doc]. data_id (doc_data d) = None"
    by simp
  with one have a: "map id' (apps (onSnapshot_next init_state [calculator_doc])) =
      map (\<lambda>d. Some (doc_id d)) [calculator_doc]"
    by blast
  have b: "map id' (apps (onSnapshot_next init_state [calculator_doc, inner_doc])) =
      map (\<lambda>d. case data_id (doc_data d) of None \<Rightarrow> Some (doc_id d) | Some v \<Rightarrow> v)
        [calculator_doc, inner_doc]"
    by (rule two [THEN conjunct2, THEN conjunct2, THEN conjunct1])
  have c: "loading (onSnapshot_next init_state [calculator_doc]) = False"
    using one by blast
  show ?thesis
    using none c
    by (simp add: a b) (simp add: calculator_doc_def inner_doc_def no_fields_def)
qed

text \<open>
  C4 as stated fails for the error: a snapshot that arrives after a failure leaves the
  message of the failure in place.
\<close>

theorem onSnapshot_next_counterexample:
  "error (onSnapshot_next (onSnapshot_error init_state ''permission-denied'') [calculator_doc])
     \<noteq> None"
  by (simp add: onSnapshot_next_def onSnapshot_error_def)

section \<open>Properties of the selection\<close>

lemma selectedApp_step:
  "\<not> changes_selection e \<Longrightarrow> selectedApp (step st e) = selectedApp st"
  by (cases e)
    (simp_all add: onSnapshot_next_def onSnapshot_error_def setup_catch_def setSearchTerm_def)

lemma selectedApp_run:
  "\<forall>e \<in> set evs. \<not> changes_selection e \<Longrightarrow> selectedApp (run st evs) = selectedApp st"
  by (induction evs arbitrary: st) (simp_all add: run_Nil run_Cons selectedApp_step)

lemma details_modal_App: "details_modal (main (App lower st)) = selectedApp st"
  by (simp add: App_def render_main_def Let_def)

text \<open>
  C6. After a record is selected, snapshots (and failures, and changes of the query) leave
  the selection and the record shown by the overlay as they were at the time of the
  selection, whatever the snapshots contain; dismissing clears both.
\<close>

theorem selection_survives_sync:
  "(\<forall>e \<in> set evs. \<not> changes_selection e) \<longrightarrow>
     selectedApp (run (step st (Select r)) evs) = Some r \<and>
     details_modal (main (App lower (run (step st (Select r)) evs))) = Some r \<and>
     details_modal (main (App lower (step (run (step st (Select r)) evs) Dismiss))) = None"
proof
  assume a: "\<forall>e \<in> set evs. \<not> changes_selection e"
  have "selectedApp (run (step st (Select r)) evs) = selectedApp (step st (Select r))"
    using a by (rule selectedApp_run)
  then have s: "selectedApp (run (step st (Select r)) evs) = Some r"
    by (simp add: setSelectedApp_def)
  then show "selectedApp (run (step st (Select r)) evs) = Some r \<and>
     details_modal (main (App lower (run (step st (Select r)) evs))) = Some r \<and>
     details_modal (main (App lower (step (run (step st (Select r)) evs) Dismiss))) = None"
    by (simp add: details_modal_App setSelectedApp_def)
qed

lemma to_app_player:
  "name (to_app player_doc) = Some ''Player''"
  "category (to_app player_doc) = Some ''Music''"
  "downloads (to_app player_doc) = Some 12000"
  "id' (to_app player_doc) = Some ''2''"
  by (simp_all add: to_app_def player_doc_def no_fields_def)

text \<open>
  The scenario of the specification: the record with id 2 is selected, then a snapshot
  without it arrives. The list no longer has the record, the overlay still shows it.
\<close>

theorem selection_survives_sync_witness:
  "\<not> changes_selection (Snapshot [calculator_doc]) \<and>
   to_app player_doc \<notin>
     set (apps (run (step (onSnapshot_next init_state [calculator_doc, player_doc])
                      (Select (to_app player_doc))) [Snapshot [calculator_doc]])) \<and>
   details_modal (main (App ascii_toLowerCase
     (run (step (onSnapshot_next init_state [calculator_doc, player_doc])
             (Select (to_app player_doc))) [Snapshot [calculator_doc]]))) =
     Some (to_app player_doc) \<and>
   details_modal (main (App ascii_toLowerCase (step
     (run (step (onSnapshot_next init_state [calculator_doc, player_doc])
             (Select (to_app player_doc))) [Snapshot [calculator_doc]]) Dismiss))) = None"
proof -
  have "id' (to_app player_doc) \<noteq> id' (to_app calculator_doc)"
    by (simp add: to_app_player to_app_calculator)
  then have "to_app player_doc \<noteq> to_app calculator_doc"
    by auto
  then show ?thesis
    using selection_survives_sync
      [of "[Snapshot [calculator_doc]]" "onSnapshot_next init_state [calculator_doc, player_doc]"
          "to_app player_doc" ascii_toLowerCase]
    by (simp add: run_Cons run_Nil onSnapshot_next_def)
qed

section \<open>Properties of the rendering\<close>

text \<open>
  C5, as amended. The main content is a function of the filtered list, loading, the error
  and the selection. While loading is true the spinner is shown and the grid is not
  rendered. A banner with the message is shown when the error is a message that is not
  empty, and the error has no influence on the grid: once loading is false the grid is
  rendered with one card per filtered record, in the order of the filtered list. The
  empty-state block is shown exactly when loading is false and the filtered list is
  empty, with or without an error.
\<close>

theorem render_main_cases:
  "main (App lower st) =
     render_main (filteredApps lower (apps st) (searchTerm st)) (loading st) (error st) (selectedApp st) \<and>
   (ld \<longrightarrow> spinner (render_main F ld err sel) \<and> grid (render_main F ld err sel) = None) \<and>
   (truthy err \<longrightarrow> error_banner (render_main F ld err sel) = err) \<and>
   (\<not> truthy err \<longrightarrow> error_banner (render_main F ld err sel) = None) \<and>
   (\<not> ld \<longrightarrow> \<not> spinner (render_main F ld err sel) \<and>
      grid (render_main F ld err sel) = Some F \<and>
      map_option (map (AppCard fb fn)) (grid (render_main F ld err sel)) =
        Some (map (AppCard fb fn) F)) \<and>
   (empty_state (render_main F ld err sel) \<longleftrightarrow> \<not> ld \<and> F = []) \<and>
   details_modal (render_main F ld err sel) = sel"
  by (simp add: App_def render_main_def Let_def)

text \<open>
  After a failure on the first attempt the banner shows the message, the grid is rendered
  without cards and the empty-state block is shown.
\<close>

theorem render_main_cases_witness:
  "\<not> loading (onSnapshot_error init_state ''permission-denied'') \<and>
   truthy (error (onSnapshot_error init_state ''permission-denied'')) \<and>
   error_banner (main (App ascii_toLowerCase (onSnapshot_error init_state ''permission-denied''))) =
     Some ''permission-denied'' \<and>
   \<not> spinner (main (App ascii_toLowerCase (onSnapshot_error init_state ''permission-denied''))) \<and>
   grid (main (App ascii_toLowerCase (onSnapshot_error init_state ''permission-denied''))) = Some [] \<and>
   empty_state (main (App ascii_toLowerCase (onSnapshot_error init_state ''permission-denied''))) \<and>
   spinner (main (App ascii_toLowerCase init_state)) \<and>
   grid (main (App ascii_toLowerCase init_state)) = None \<and>
   error_banner (main (App ascii_toLowerCase init_state)) = None"
proof -
  let ?st = "onSnapshot_error init_state ''permission-denied''"
  have st: "loading ?st = False" "error ?st = Some ''permission-denied''" "apps ?st = []"
    "selectedApp ?st = None" "loading init_state = True" "error init_state = None"
    "selectedApp init_state = None"
    by (simp_all add: onSnapshot_error_def init_state_def)
  have f: "filteredApps lower [] q = []" for lower q
    by (simp add: filteredApps_def)
  show ?thesis
    using render_main_cases [of ascii_toLowerCase ?st False "[]" "Some ''permission-denied''" None "\<lambda>b. []" formatNumber]
      render_main_cases [of ascii_toLowerCase init_state True "filteredApps ascii_toLowerCase (apps init_state) (searchTerm init_state)" None None "\<lambda>b. []" formatNumber]
    by (simp add: st f truthy_def)
qed

text \<open>
  C5 as stated fails for the empty-state block: after a failure on the first attempt the
  error is set, and the block is shown all the same.
\<close>

theorem render_main_counterexample:
  "\<not> (empty_state (main (App ascii_toLowerCase (onSnapshot_error init_state ''permission-denied''))) \<longleftrightarrow>
       \<not> loading (onSnapshot_error init_state ''permission-denied'') \<and>
       error (onSnapshot_error init_state ''permission-denied'') = None \<and>
       filteredApps ascii_toLowerCase (apps (onSnapshot_error init_state ''permission-denied''))
         (searchTerm (onSnapshot_error init_state ''permission-denied'')) = [])"
  by (simp add: App_def render_main_def Let_def onSnapshot_error_def init_state_def
      filteredApps_def)

text \<open>
  The first scenario of the specification: the snapshot delivers the calculator; the
  query \<open>calc\<close> finds it, the query \<open>music\<close> finds nothing and the empty-state block
  is shown.
\<close>

lemma scenario_calculator:
  "filteredApps ascii_toLowerCase (apps (onSnapshot_next init_state [calculator_doc])) ''calc'' =
     [to_app calculator_doc]"
  "filteredApps ascii_toLowerCase (apps (onSnapshot_next init_state [calculator_doc])) ''music'' = []"
  "empty_state (main (App ascii_toLowerCase (setSearchTerm (onSnapshot_next init_state [calculator_doc]) ''music'')))"
  by (simp_all add: App_def render_main_def Let_def setSearchTerm_def onSnapshot_next_def
      init_state_def filteredApps_def matches_calculator_calc not_matches_calculator_music)

section \<open>Properties of the summary card\<close>

lemmas number_eval = formatNumber_def decimal.simps char_of_def bit_0

text \<open>
  C9. A card for a record without a download count shows \<open>New Release\<close>; a card for a
  record with 12000 downloads shows the formatted count followed by \<open>downloads\<close>, which
  is \<open>12,000 downloads\<close> with the number formatting of the specification.
\<close>

theorem AppCard_downloads:
  "card_downloads (AppCard fb fn (a\<lparr>downloads := None\<rparr>)) = ''New Release'' \<and>
   card_downloads (AppCard fb fn (a\<lparr>downloads := Some 12000\<rparr>)) = fn 12000 @ '' downloads'' \<and>
   card_downloads (AppCard fb formatNumber (a\<lparr>downloads := Some 12000\<rparr>)) = ''12,000 downloads''"
  by (simp add: AppCard_def number_eval)



end
